theory Spec2Isabelle
  imports Main "HOL-Library.Word" "HOL-Library.AList"
begin

section \<open>Strings and values of the host language\<close>

text \<open>
  A JavaScript string is a sequence of 16-bit code units. \<open>js\<close> embeds an ASCII
  literal, so that \<open>js ''response''\<close> is the string \<^verbatim>\<open>'response'\<close> of the source.
\<close>

type_synonym code_unit = "16 word"
type_synonym js_string = "code_unit list"

definition js :: "string \<Rightarrow> js_string" where
  "js s = map (\<lambda>c. of_nat (of_char c)) s"

text \<open>
  \<^verbatim>\<open>String.prototype.trim\<close> removes WhiteSpace and LineTerminator code units from both
  ends: TAB, LF, VT, FF, CR, SP, NBSP, U+1680, U+2000..U+200A, LS, PS, U+202F, U+205F,
  U+3000 and ZWNBSP.
\<close>

definition is_space :: "code_unit \<Rightarrow> bool" where
  "is_space c =
     (c = 0x09 \<or> c = 0x0A \<or> c = 0x0B \<or> c = 0x0C \<or> c = 0x0D \<or> c = 0x20 \<or> c = 0xA0 \<or>
      c = 0x1680 \<or> (0x2000 \<le> c \<and> c \<le> 0x200A) \<or> c = 0x2028 \<or> c = 0x2029 \<or>
      c = 0x202F \<or> c = 0x205F \<or> c = 0x3000 \<or> c = 0xFEFF)"

definition trim :: "js_string \<Rightarrow> js_string" where
  "trim s = rev (dropWhile is_space (rev (dropWhile is_space s)))"

text \<open>
  A number that came out of a JSON text: \<open>Finite m e\<close> is the decimal \<open>m * 10 ^ e\<close>,
  \<open>Infinity neg\<close> the value a literal beyond the binary64 range is read as. The
  rounding of a significand to 53 bits is not modelled; the program only tests numbers
  for zero and hands them on.
\<close>

datatype jsnum = Finite int int | Infinity bool

text \<open>
  The values \<^verbatim>\<open>JSON.parse\<close> produces. An object is an association list in
  insertion order with distinct keys. \<^verbatim>\<open>undefined\<close> is \<open>None\<close> of \<open>json option\<close>.
\<close>

datatype json =
    JNull
  | JBool bool
  | JNumber jsnum
  | JString js_string
  | JArray "json list"
  | JObject "(js_string \<times> json) list"

text \<open>What the program can throw, or a promise reject with.\<close>

datatype js_exception =
    TypeError
  | SyntaxError
  | HttpError nat
  | NetworkError

text \<open>ToBoolean, as the operator \<^verbatim>\<open>||\<close> applies it.\<close>

fun truthy :: "json \<Rightarrow> bool" where
  "truthy JNull = False"
| "truthy (JBool b) = b"
| "truthy (JNumber (Finite m e)) = (m \<noteq> 0)"
| "truthy (JNumber (Infinity neg)) = True"
| "truthy (JString s) = (s \<noteq> [])"
| "truthy (JArray xs) = True"
| "truthy (JObject kvs) = True"

text \<open>
  Property access \<^verbatim>\<open>v.k\<close>. Reading a property of \<^verbatim>\<open>null\<close> throws a TypeError. On an
  object it is the own property, else \<^verbatim>\<open>undefined\<close>; on a boolean, number, string or
  array it is \<^verbatim>\<open>undefined\<close> for every name the program reads (\<^verbatim>\<open>response\<close>,
  \<^verbatim>\<open>content\<close>, \<^verbatim>\<open>message\<close>, \<^verbatim>\<open>result\<close>, \<^verbatim>\<open>summary\<close>: none is on a prototype).
\<close>

fun get :: "json \<Rightarrow> js_string \<Rightarrow> js_exception + json option" where
  "get JNull k = Inl TypeError"
| "get (JObject kvs) k = Inr (map_of kvs k)"
| "get v k = Inr None"

text \<open>
  \<^verbatim>\<open>a || rest\<close>, where \<open>a\<close> has been evaluated and \<open>rest\<close> is the completion of the
  right operand, which counts only when \<open>a\<close> is falsy.
\<close>

fun or_else :: "json option \<Rightarrow> js_exception + json \<Rightarrow> js_exception + json" where
  "or_else None rest = rest"
| "or_else (Some v) rest = (if truthy v then Inr v else rest)"

text \<open>Sequencing of two computations that may throw.\<close>

fun and_then :: "js_exception + 'a \<Rightarrow> ('a \<Rightarrow> js_exception + 'b) \<Rightarrow> js_exception + 'b" where
  "and_then (Inl e) f = Inl e"
| "and_then (Inr x) f = f x"

text \<open>\<^verbatim>\<open>v?.k\<close>: \<^verbatim>\<open>undefined\<close> when \<open>v\<close> is \<^verbatim>\<open>undefined\<close> or \<^verbatim>\<open>null\<close>.\<close>

fun get_opt :: "json option \<Rightarrow> js_string \<Rightarrow> js_exception + json option" where
  "get_opt None k = Inr None"
| "get_opt (Some JNull) k = Inr None"
| "get_opt (Some v) k = get v k"

text \<open>
  The two library functions the program calls. \<open>JSON_parse\<close> takes any value (the
  library converts its argument to a string first) and is \<open>None\<close> when the call throws;
  \<open>JSON_stringify\<close> of a value that was itself parsed from JSON is a string.
\<close>

record host =
  JSON_parse :: "json \<Rightarrow> json option"
  JSON_stringify :: "json \<Rightarrow> js_string"

section \<open>callAgentAPI\<close>

datatype agent = conversation | summarization

fun AGENT_IDS :: "agent \<Rightarrow> js_string" where
  "AGENT_IDS conversation = js ''68e116d6615699d53b623c87''"
| "AGENT_IDS summarization = js ''68e116e33637bc8ddc9ffb63''"

text \<open>The body of the POST request.\<close>

record request =
  user_id :: js_string
  agent_id :: js_string
  session_id :: js_string
  message :: js_string

text \<open>
  How \<^verbatim>\<open>fetch\<close> settles: the promise rejects, or it resolves to a response with a
  status and a body text. \<^verbatim>\<open>response.ok\<close> is a status in 200..299.
\<close>

datatype fetch_outcome = Rejected | Response nat js_string

definition response_ok :: "nat \<Rightarrow> bool" where
  "response_ok status = (200 \<le> status \<and> status \<le> 299)"

text \<open>\<^verbatim>\<open>data.response || data.content || JSON.stringify(data)\<close>\<close>

definition rawContent :: "host \<Rightarrow> json \<Rightarrow> js_exception + json" where
  "rawContent h data =
     and_then (get data (js ''response'')) (\<lambda>a.
       or_else a
         (and_then (get data (js ''content'')) (\<lambda>b.
            or_else b (Inr (JString (JSON_stringify h data))))))"

text \<open>The body of the \<^verbatim>\<open>try\<close> block.\<close>

definition try_block :: "host \<Rightarrow> js_string \<Rightarrow> json \<Rightarrow> js_exception + json" where
  "try_block h agentId data =
     and_then (rawContent h data) (\<lambda>raw.
       case JSON_parse h raw of
         None \<Rightarrow> Inl SyntaxError
       | Some parsed \<Rightarrow>
           if agentId = AGENT_IDS conversation then
             and_then (get parsed (js ''response'')) (\<lambda>a.
               or_else a
                 (and_then (get parsed (js ''message'')) (\<lambda>b.
                    or_else b (Inr (JString (js ''I received your message.''))))))
           else
             and_then (and_then (get parsed (js ''result'')) (\<lambda>r. get_opt r (js ''summary''))) (\<lambda>a.
               or_else a
                 (and_then (get parsed (js ''summary'')) (\<lambda>b.
                    or_else b (Inr (JString (js ''Summary not available.'')))))))"

text \<open>The \<^verbatim>\<open>catch\<close> block: \<^verbatim>\<open>data.response || data.message || 'I received your message.'\<close>\<close>

definition catch_block :: "json \<Rightarrow> js_exception + json" where
  "catch_block data =
     and_then (get data (js ''response'')) (\<lambda>a.
       or_else a
         (and_then (get data (js ''message'')) (\<lambda>b.
            or_else b (Inr (JString (js ''I received your message.''))))))"

text \<open>
  The response normalizer: lines 68 to 81, from the decoded body to the value
  returned. Whatever the \<^verbatim>\<open>try\<close> block throws is caught; what the \<^verbatim>\<open>catch\<close> block
  throws leaves the function.
\<close>

definition normalize :: "host \<Rightarrow> js_string \<Rightarrow> json \<Rightarrow> js_exception + json" where
  "normalize h agentId data =
     (case try_block h agentId data of
        Inr v \<Rightarrow> Inr v
      | Inl e \<Rightarrow> catch_block data)"

text \<open>
  \<open>callAgentAPI\<close> after \<^verbatim>\<open>fetch\<close> has settled: the status check, \<^verbatim>\<open>response.json()\<close>
  (the body text parsed as JSON) and the normalizer.
\<close>

definition callAgentAPI :: "host \<Rightarrow> js_string \<Rightarrow> fetch_outcome \<Rightarrow> js_exception + json" where
  "callAgentAPI h agentId outcome =
     (case outcome of
        Rejected \<Rightarrow> Inl NetworkError
      | Response status body \<Rightarrow>
          if \<not> response_ok status then Inl (HttpError status)
          else (case JSON_parse h (JString body) of
                  None \<Rightarrow> Inl SyntaxError
                | Some data \<Rightarrow> normalize h agentId data))"

section \<open>The session controller\<close>

text \<open>
  \<open>generateRandomId\<close> and \<^verbatim>\<open>new Date()\<close> read the environment: the random string and
  the clock are arguments of the handlers below.
\<close>

definition generateRandomUserId :: "js_string \<Rightarrow> js_string" where
  "generateRandomUserId rnd = js ''user'' @ rnd @ js ''@test.com''"

datatype sender = user | agent

text \<open>
  A message of the thread. \<open>msg_id\<close> is the field \<^verbatim>\<open>id\<close>. \<open>content\<close> is declared a
  string; at run time it holds whatever \<open>callAgentAPI\<close> returned. \<open>error\<close> is optional.
\<close>

record Message =
  msg_id :: js_string
  content :: json
  sender :: sender
  timestamp :: nat
  error :: "bool option"

text \<open>
  The component's state (the \<^verbatim>\<open>useState\<close> cells), and \<open>inflight\<close>: the calls of
  \<open>callAgentAPI\<close> that are suspended at their \<^verbatim>\<open>await\<close>, oldest first, each with the
  request it sent. A handler runs on the state of the latest render.
\<close>

record state =
  messages :: "Message list"
  inputValue :: js_string
  isTyping :: bool
  userId :: js_string
  currentAgent :: agent
  inflight :: "request list"

definition initial :: "js_string \<Rightarrow> state" where
  "initial rnd =
     \<lparr>messages = [], inputValue = [], isTyping = False,
      userId = generateRandomUserId rnd, currentAgent = conversation, inflight = []\<rparr>"

text \<open>The textarea's \<^verbatim>\<open>onChange\<close> and the agent button's \<^verbatim>\<open>onClick\<close>.\<close>

definition setInputValue :: "js_string \<Rightarrow> state \<Rightarrow> state" where
  "setInputValue v s = s\<lparr>inputValue := v\<rparr>"

definition toggleAgent :: "state \<Rightarrow> state" where
  "toggleAgent s =
     s\<lparr>currentAgent := (if currentAgent s = conversation then summarization else conversation)\<rparr>"

text \<open>
  \<open>handleSendMessage\<close> up to its \<^verbatim>\<open>await\<close>: the guard, the user's message, the three
  state updates and the request that \<open>callAgentAPI\<close> sends. \<open>rid\<close> is the random id of
  the message, \<open>now\<close> the clock, \<open>sid\<close> the random part of the session id.
\<close>

definition handleSendMessage :: "js_string \<Rightarrow> nat \<Rightarrow> js_string \<Rightarrow> state \<Rightarrow> state" where
  "handleSendMessage rid now sid s =
     (if trim (inputValue s) = [] then s
      else
        let userMessage =
              \<lparr>msg_id = rid, content = JString (inputValue s), sender = user,
               timestamp = now, error = None\<rparr>;
            agentId = (if currentAgent s = conversation then AGENT_IDS conversation
                       else AGENT_IDS summarization);
            sessionId = agentId @ js ''-'' @ sid
        in s\<lparr>messages := messages s @ [userMessage],
              inputValue := [],
              isTyping := True,
              inflight := inflight s @
                [\<lparr>user_id = userId s, agent_id = agentId, session_id = sessionId,
                  message = inputValue s\<rparr>]\<rparr>)"

text \<open>
  The message \<open>handleSendMessage\<close> appends once \<open>callAgentAPI\<close> has settled: the agent's
  reply, or the error message of the \<^verbatim>\<open>catch\<close> block.
\<close>

definition settled_message :: "js_exception + json \<Rightarrow> js_string \<Rightarrow> nat \<Rightarrow> Message" where
  "settled_message result rid now =
     (case result of
        Inr response \<Rightarrow>
          \<lparr>msg_id = rid, content = response, sender = agent, timestamp = now, error = None\<rparr>
      | Inl e \<Rightarrow>
          \<lparr>msg_id = rid,
           content = JString (js ''Sorry, I encountered an error while processing your request. Please try again.''),
           sender = agent, timestamp = now, error = Some True\<rparr>)"

text \<open>
  \<open>handleSendMessage\<close> from its \<^verbatim>\<open>await\<close> on, for the \<open>i\<close>-th call in flight, whose
  \<^verbatim>\<open>fetch\<close> has settled with \<open>outcome\<close>: the reply or the error message is appended to
  the messages of the state at that moment, and \<^verbatim>\<open>finally\<close> clears \<open>isTyping\<close>. The
  agent id is the one the call was made with.
\<close>

definition resume :: "host \<Rightarrow> nat \<Rightarrow> fetch_outcome \<Rightarrow> js_string \<Rightarrow> nat \<Rightarrow> state \<Rightarrow> state" where
  "resume h i outcome rid now s =
     (if i < length (inflight s) then
        let agentId = agent_id (inflight s ! i);
            m = settled_message (callAgentAPI h agentId outcome) rid now
        in s\<lparr>messages := messages s @ [m],
              isTyping := False,
              inflight := take i (inflight s) @ drop (Suc i) (inflight s)\<rparr>
      else s)"

definition handleClearChat :: "state \<Rightarrow> state" where
  "handleClearChat s = s\<lparr>messages := [], isTyping := False\<rparr>"

text \<open>\<open>handleKeyPress\<close>: Enter without Shift submits.\<close>

definition handleKeyPress :: "js_string \<Rightarrow> bool \<Rightarrow> js_string \<Rightarrow> nat \<Rightarrow> js_string \<Rightarrow> state \<Rightarrow> state" where
  "handleKeyPress key shiftKey rid now sid s =
     (if key = js ''Enter'' \<and> \<not> shiftKey then handleSendMessage rid now sid s else s)"

section \<open>The host's JSON functions\<close>

text \<open>
  \<^verbatim>\<open>JSON.parse\<close> reads its text in two passes: the tokens of the JSON grammar, then
  the value they spell.
\<close>

datatype token =
    LBrace | RBrace | LBracket | RBracket | Colon | Comma
  | TString js_string | TNumber jsnum | TTrue | TFalse | TNull

definition is_digit :: "code_unit \<Rightarrow> bool" where
  "is_digit c = (0x30 \<le> c \<and> c \<le> 0x39)"

definition digits_value :: "js_string \<Rightarrow> nat" where
  "digits_value ds = foldl (\<lambda>n c. 10 * n + unat (c - 0x30)) 0 ds"

text \<open>
  The value of the literal \<open>m * 10 ^ e\<close> as a binary64 number, as far as the program
  can tell: zero when it rounds to zero (at most \<open>2 ^ -1075\<close>), infinite when it rounds
  beyond the largest finite number (at least \<open>2 ^ 1024 - 2 ^ 970\<close>).
\<close>

definition number_value :: "bool \<Rightarrow> nat \<Rightarrow> int \<Rightarrow> jsnum" where
  "number_value neg m e =
     (if m = 0 \<or> (e < 0 \<and> m * 2 ^ 1075 \<le> 10 ^ nat (- e)) then Finite 0 0
      else if (if 0 \<le> e then 2 ^ 1024 - 2 ^ 970 \<le> m * 10 ^ nat e
               else (2 ^ 1024 - 2 ^ 970) * 10 ^ nat (- e) \<le> m) then Infinity neg
      else Finite (if neg then - int m else int m) e)"

text \<open>
  A number lexeme: an optional minus, an integer part without a leading zero, an
  optional fraction, an optional exponent, and nothing else.
\<close>

definition number_of_lexeme :: "js_string \<Rightarrow> jsnum option" where
  "number_of_lexeme cs =
     (let (neg, r1) = (case cs of c # r \<Rightarrow> if c = 0x2D then (True, r) else (False, cs) | [] \<Rightarrow> (False, cs));
          ip = takeWhile is_digit r1;
          r2 = dropWhile is_digit r1;
          (has_frac, r3) = (case r2 of c # r \<Rightarrow> if c = 0x2E then (True, r) else (False, r2) | [] \<Rightarrow> (False, r2));
          fp = (if has_frac then takeWhile is_digit r3 else []);
          r4 = (if has_frac then dropWhile is_digit r3 else r3);
          (has_exp, r5) = (case r4 of c # r \<Rightarrow> if c = 0x65 \<or> c = 0x45 then (True, r) else (False, r4) | [] \<Rightarrow> (False, r4));
          (eneg, r6) = (case r5 of c # r \<Rightarrow> if has_exp \<and> c = 0x2D then (True, r)
                                             else if has_exp \<and> c = 0x2B then (False, r) else (False, r5)
                         | [] \<Rightarrow> (False, r5));
          ep = (if has_exp then takeWhile is_digit r6 else []);
          r7 = (if has_exp then dropWhile is_digit r6 else r6);
          ex = (if eneg then - int (digits_value ep) else int (digits_value ep))
      in if ip = [] \<or> (1 < length ip \<and> take 1 ip = [0x30]) \<or> (has_frac \<and> fp = [])
            \<or> (has_exp \<and> ep = []) \<or> r7 \<noteq> [] then None
         else Some (number_value neg (digits_value (ip @ fp)) (ex - int (length fp))))"

definition name_token :: "js_string \<Rightarrow> token option" where
  "name_token s =
     (if s = js ''true'' then Some TTrue
      else if s = js ''false'' then Some TFalse
      else if s = js ''null'' then Some TNull
      else None)"

definition hex_value :: "code_unit \<Rightarrow> nat option" where
  "hex_value c =
     (if 0x30 \<le> c \<and> c \<le> 0x39 then Some (unat c - 0x30)
      else if 0x41 \<le> c \<and> c \<le> 0x46 then Some (unat c - 0x41 + 10)
      else if 0x61 \<le> c \<and> c \<le> 0x66 then Some (unat c - 0x61 + 10)
      else None)"

text \<open>The character after a backslash, other than \<open>u\<close>.\<close>

definition escape :: "code_unit \<Rightarrow> code_unit option" where
  "escape c =
     (if c = 0x22 then Some 0x22
      else if c = 0x5C then Some 0x5C
      else if c = 0x2F then Some 0x2F
      else if c = 0x62 then Some 0x08
      else if c = 0x66 then Some 0x0C
      else if c = 0x6E then Some 0x0A
      else if c = 0x72 then Some 0x0D
      else if c = 0x74 then Some 0x09
      else None)"

text \<open>
  Where the tokenizer is: between tokens, in a string (the characters read so far,
  latest first), after a backslash, in a \<open>\u\<close> escape (digits read, their value), in
  a number or in a name. The characters of a number or a name are collected up to the
  first one that cannot belong to it, and the lexeme is checked as a whole.
\<close>

datatype lex_mode =
    Between
  | InString js_string
  | InEscape js_string
  | InUnicode js_string nat nat
  | InNumber js_string
  | InName js_string

text \<open>The token a number or name that ends here makes.\<close>

fun close_token :: "lex_mode \<Rightarrow> token list option" where
  "close_token Between = Some []"
| "close_token (InNumber acc) = map_option (\<lambda>n. [TNumber n]) (number_of_lexeme (rev acc))"
| "close_token (InName acc) = map_option (\<lambda>t. [t]) (name_token (rev acc))"
| "close_token m = None"

text \<open>A character between tokens: JSON whitespace, punctuation, or the start of a token.\<close>

definition start :: "code_unit \<Rightarrow> (lex_mode \<times> token list) option" where
  "start c =
     (if c = 0x20 \<or> c = 0x09 \<or> c = 0x0A \<or> c = 0x0D then Some (Between, [])
      else if c = 0x7B then Some (Between, [LBrace])
      else if c = 0x7D then Some (Between, [RBrace])
      else if c = 0x5B then Some (Between, [LBracket])
      else if c = 0x5D then Some (Between, [RBracket])
      else if c = 0x3A then Some (Between, [Colon])
      else if c = 0x2C then Some (Between, [Comma])
      else if c = 0x22 then Some (InString [], [])
      else if c = 0x2D \<or> is_digit c then Some (InNumber [c], [])
      else if 0x61 \<le> c \<and> c \<le> 0x7A then Some (InName [c], [])
      else None)"

fun tokens :: "lex_mode \<Rightarrow> js_string \<Rightarrow> token list option" where
  "tokens m [] = close_token m"
| "tokens (InString acc) (c # cs) =
     (if c = 0x22 then map_option ((#) (TString (rev acc))) (tokens Between cs)
      else if c = 0x5C then tokens (InEscape acc) cs
      else if c < 0x20 then None
      else tokens (InString (c # acc)) cs)"
| "tokens (InEscape acc) (c # cs) =
     (if c = 0x75 then tokens (InUnicode acc 0 0) cs
      else case escape c of
             None \<Rightarrow> None
           | Some d \<Rightarrow> tokens (InString (d # acc)) cs)"
| "tokens (InUnicode acc k n) (c # cs) =
     (case hex_value c of
        None \<Rightarrow> None
      | Some d \<Rightarrow>
          if k = 3 then tokens (InString (of_nat (16 * n + d) # acc)) cs
          else tokens (InUnicode acc (Suc k) (16 * n + d)) cs)"
| "tokens (InNumber acc) (c # cs) =
     (if is_digit c \<or> c = 0x2B \<or> c = 0x2D \<or> c = 0x2E \<or> c = 0x65 \<or> c = 0x45
      then tokens (InNumber (c # acc)) cs
      else case (close_token (InNumber acc), start c) of
             (Some ts, Some (m, ts')) \<Rightarrow> map_option ((@) (ts @ ts')) (tokens m cs)
           | _ \<Rightarrow> None)"
| "tokens (InName acc) (c # cs) =
     (if 0x61 \<le> c \<and> c \<le> 0x7A then tokens (InName (c # acc)) cs
      else case (close_token (InName acc), start c) of
             (Some ts, Some (m, ts')) \<Rightarrow> map_option ((@) (ts @ ts')) (tokens m cs)
           | _ \<Rightarrow> None)"
| "tokens Between (c # cs) =
     (case start c of
        None \<Rightarrow> None
      | Some (m, ts) \<Rightarrow> map_option ((@) ts) (tokens m cs))"

text \<open>
  The value the tokens spell, read with a stack of the arrays and objects that are
  open: an array with its elements so far (latest first), an object with its members
  so far, or an object with the key whose value comes next. A repeated key keeps its
  place and takes the later value.
\<close>

datatype frame =
    FArray "json list"
  | FObject "(js_string \<times> json) list"
  | FMember "(js_string \<times> json) list" js_string

datatype expect =
    WantValue
  | WantValueOrClose
  | WantKey
  | WantKeyOrClose
  | WantColon
  | AfterValue
  | Finished json

text \<open>A value is complete: it is the whole text, an element, or a member's value.\<close>

fun complete :: "json \<Rightarrow> frame list \<Rightarrow> (expect \<times> frame list) option" where
  "complete v [] = Some (Finished v, [])"
| "complete v (FArray xs # st) = Some (AfterValue, FArray (v # xs) # st)"
| "complete v (FMember kvs k # st) = Some (AfterValue, FObject (AList.update k v kvs) # st)"
| "complete v (FObject kvs # st) = None"

fun open_value :: "token \<Rightarrow> frame list \<Rightarrow> (expect \<times> frame list) option" where
  "open_value (TString s) st = complete (JString s) st"
| "open_value (TNumber n) st = complete (JNumber n) st"
| "open_value TTrue st = complete (JBool True) st"
| "open_value TFalse st = complete (JBool False) st"
| "open_value TNull st = complete JNull st"
| "open_value LBracket st = Some (WantValueOrClose, FArray [] # st)"
| "open_value LBrace st = Some (WantKeyOrClose, FObject [] # st)"
| "open_value t st = None"

fun close_array :: "frame list \<Rightarrow> (expect \<times> frame list) option" where
  "close_array (FArray xs # st) = complete (JArray (rev xs)) st"
| "close_array st = None"

fun close_object :: "frame list \<Rightarrow> (expect \<times> frame list) option" where
  "close_object (FObject kvs # st) = complete (JObject kvs) st"
| "close_object st = None"

fun open_member :: "frame list \<Rightarrow> token \<Rightarrow> (expect \<times> frame list) option" where
  "open_member (FObject kvs # st) (TString k) = Some (WantColon, FMember kvs k # st)"
| "open_member st t = None"

fun next_item :: "frame list \<Rightarrow> (expect \<times> frame list) option" where
  "next_item (FArray xs # st) = Some (WantValue, FArray xs # st)"
| "next_item (FObject kvs # st) = Some (WantKey, FObject kvs # st)"
| "next_item st = None"

fun shift :: "expect \<Rightarrow> frame list \<Rightarrow> token \<Rightarrow> (expect \<times> frame list) option" where
  "shift WantValue st t = open_value t st"
| "shift WantValueOrClose st t = (if t = RBracket then close_array st else open_value t st)"
| "shift WantKeyOrClose st t = (if t = RBrace then close_object st else open_member st t)"
| "shift WantKey st t = open_member st t"
| "shift WantColon st t = (if t = Colon then Some (WantValue, st) else None)"
| "shift AfterValue st t =
     (if t = Comma then next_item st
      else if t = RBracket then close_array st
      else if t = RBrace then close_object st
      else None)"
| "shift (Finished v) st t = None"

fun parse_tokens :: "expect \<Rightarrow> frame list \<Rightarrow> token list \<Rightarrow> json option" where
  "parse_tokens (Finished v) st [] = Some v"
| "parse_tokens e st [] = None"
| "parse_tokens e st (t # ts) =
     (case shift e st t of
        None \<Rightarrow> None
      | Some (e', st') \<Rightarrow> parse_tokens e' st' ts)"

definition parse_text :: "js_string \<Rightarrow> json option" where
  "parse_text s =
     (case tokens Between s of
        None \<Rightarrow> None
      | Some ts \<Rightarrow> parse_tokens WantValue [] ts)"

text \<open>
  Number::toString for a decimal with digits \<open>s\<close> (no trailing zero), \<open>k\<close> of them,
  and the value \<open>s * 10 ^ (n - k)\<close>.
\<close>

fun digits :: "nat \<Rightarrow> js_string" where
  "digits n = (if n < 10 then [of_nat (48 + n)] else digits (n div 10) @ [of_nat (48 + n mod 10)])"

fun strip_zeros :: "nat \<Rightarrow> int \<Rightarrow> nat \<times> int" where
  "strip_zeros m e = (if m \<noteq> 0 \<and> m mod 10 = 0 then strip_zeros (m div 10) (e + 1) else (m, e))"

fun Number_toString :: "jsnum \<Rightarrow> js_string" where
  "Number_toString (Infinity neg) = (if neg then js ''-Infinity'' else js ''Infinity'')"
| "Number_toString (Finite m e) =
     (if m = 0 then js ''0''
      else
        let (s, e') = strip_zeros (nat \<bar>m\<bar>) e;
            ds = digits s;
            k = int (length ds);
            n = k + e';
            ex = digits (nat \<bar>n - 1\<bar>);
            sg = (if n - 1 < 0 then js ''-'' else js ''+'')
        in (if m < 0 then js ''-'' else []) @
           (if k \<le> n \<and> n \<le> 21 then ds @ replicate (nat (n - k)) 0x30
            else if 0 < n \<and> n \<le> 21 then take (nat n) ds @ js ''.'' @ drop (nat n) ds
            else if - 6 < n \<and> n \<le> 0 then js ''0.'' @ replicate (nat (- n)) 0x30 @ ds
            else if k = 1 then ds @ js ''e'' @ sg @ ex
            else take 1 ds @ js ''.'' @ drop 1 ds @ js ''e'' @ sg @ ex))"

fun join :: "js_string list \<Rightarrow> js_string" where
  "join [] = []"
| "join [x] = x"
| "join (x # y # ys) = x @ js '','' @ join (y # ys)"

text \<open>
  ToString of a parsed value, \<open>None\<close> when it throws: an array joins its elements
  (\<^verbatim>\<open>null\<close> as the empty string), an object is \<^verbatim>\<open>[object Object]\<close> unless an own
  property hides \<^verbatim>\<open>toString\<close>, which leaves nothing callable that returns a primitive.
\<close>

fun ToString :: "json \<Rightarrow> js_string option"
  and ToString_elements :: "json list \<Rightarrow> js_string list option" where
  "ToString JNull = Some (js ''null'')"
| "ToString (JBool b) = Some (if b then js ''true'' else js ''false'')"
| "ToString (JNumber n) = Some (Number_toString n)"
| "ToString (JString s) = Some s"
| "ToString (JArray xs) = map_option join (ToString_elements xs)"
| "ToString (JObject kvs) =
     (if map_of kvs (js ''toString'') = None then Some (js ''[object Object]'') else None)"
| "ToString_elements [] = Some []"
| "ToString_elements (x # xs) =
     (case (if x = JNull then Some [] else ToString x) of
        None \<Rightarrow> None
      | Some s \<Rightarrow> map_option ((#) s) (ToString_elements xs))"

text \<open>
  QuoteJSONString: the short escapes, \<open>\u00xx\<close> for the other control characters
  and for a surrogate without its partner.
\<close>

definition hex_digit :: "nat \<Rightarrow> code_unit" where
  "hex_digit d = (if d < 10 then of_nat (48 + d) else of_nat (87 + d))"

definition unicode_escape :: "code_unit \<Rightarrow> js_string" where
  "unicode_escape c =
     [0x5C, 0x75, hex_digit (unat c div 4096), hex_digit (unat c div 256 mod 16),
      hex_digit (unat c div 16 mod 16), hex_digit (unat c mod 16)]"

fun quote_units :: "js_string \<Rightarrow> js_string" where
  "quote_units [] = []"
| "quote_units (c # cs) =
     (if c = 0x22 then [0x5C, 0x22] @ quote_units cs
      else if c = 0x5C then [0x5C, 0x5C] @ quote_units cs
      else if c = 0x08 then [0x5C, 0x62] @ quote_units cs
      else if c = 0x0C then [0x5C, 0x66] @ quote_units cs
      else if c = 0x0A then [0x5C, 0x6E] @ quote_units cs
      else if c = 0x0D then [0x5C, 0x72] @ quote_units cs
      else if c = 0x09 then [0x5C, 0x74] @ quote_units cs
      else if c < 0x20 then unicode_escape c @ quote_units cs
      else if 0xD800 \<le> c \<and> c \<le> 0xDBFF then
        (case cs of
           d # ds \<Rightarrow> if 0xDC00 \<le> d \<and> d \<le> 0xDFFF then c # d # quote_units ds
                     else unicode_escape c @ quote_units cs
         | [] \<Rightarrow> unicode_escape c)
      else if 0xDC00 \<le> c \<and> c \<le> 0xDFFF then unicode_escape c @ quote_units cs
      else c # quote_units cs)"

definition quote :: "js_string \<Rightarrow> js_string" where
  "quote s = [0x22] @ quote_units s @ [0x22]"

text \<open>\<^verbatim>\<open>JSON.stringify\<close> of a parsed value; a number that is not finite is \<^verbatim>\<open>null\<close>.\<close>

fun stringify :: "json \<Rightarrow> js_string"
  and stringify_elements :: "json list \<Rightarrow> js_string list"
  and stringify_members :: "(js_string \<times> json) list \<Rightarrow> js_string list" where
  "stringify JNull = js ''null''"
| "stringify (JBool b) = (if b then js ''true'' else js ''false'')"
| "stringify (JNumber (Finite m e)) = Number_toString (Finite m e)"
| "stringify (JNumber (Infinity neg)) = js ''null''"
| "stringify (JString s) = quote s"
| "stringify (JArray xs) = js ''['' @ join (stringify_elements xs) @ js '']''"
| "stringify (JObject kvs) = js ''{'' @ join (stringify_members kvs) @ js ''}''"
| "stringify_elements [] = []"
| "stringify_elements (x # xs) = stringify x # stringify_elements xs"
| "stringify_members [] = []"
| "stringify_members ((k, v) # kvs) = (quote k @ js '':'' @ stringify v) # stringify_members kvs"

text \<open>The host as the language defines it.\<close>

definition ecma :: host where
  "ecma =
     \<lparr>JSON_parse = (\<lambda>v. case ToString v of None \<Rightarrow> None | Some s \<Rightarrow> parse_text s),
      JSON_stringify = stringify\<rparr>"

section \<open>The reply as the specification words it\<close>

text \<open>
  The specification gives the normalizer as an ordered list of lookups, the first
  usable one winning: a lookup is usable when the field is there and its value is
  truthy. \<open>spec_field\<close> is a lookup that never throws.
\<close>

fun usable :: "json option \<Rightarrow> bool" where
  "usable None = False"
| "usable (Some v) = truthy v"

fun spec_field :: "json \<Rightarrow> js_string \<Rightarrow> json option" where
  "spec_field (JObject kvs) k = map_of kvs k"
| "spec_field v k = None"

fun spec_nested :: "json \<Rightarrow> js_string \<Rightarrow> js_string \<Rightarrow> json option" where
  "spec_nested v k1 k2 = (case spec_field v k1 of None \<Rightarrow> None | Some w \<Rightarrow> spec_field w k2)"

fun spec_first_usable :: "json option list \<Rightarrow> json \<Rightarrow> json" where
  "spec_first_usable [] d = d"
| "spec_first_usable (None # xs) d = spec_first_usable xs d"
| "spec_first_usable (Some v # xs) d = (if truthy v then v else spec_first_usable xs d)"

definition spec_reply :: "js_string \<Rightarrow> json \<Rightarrow> json" where
  "spec_reply agentId parsed =
     (if agentId = AGENT_IDS conversation then
        spec_first_usable [spec_field parsed (js ''response''), spec_field parsed (js ''message'')]
          (JString (js ''I received your message.''))
      else
        spec_first_usable
          [spec_nested parsed (js ''result'') (js ''summary''), spec_field parsed (js ''summary'')]
          (JString (js ''Summary not available.'')))"

section \<open>The bodies and states of the scenarios\<close>

text \<open>
  Scenario A: \<^verbatim>\<open>{"response": "{\"response\":\"Hi there\"}"}\<close>, and
  scenario B: \<^verbatim>\<open>{"content": "{\"result\":{\"summary\":\"Short summary.\"}}"}\<close>.
  \<open>0x5C\<close> is the backslash.
\<close>

definition scenario_A_body :: js_string where
  \<open>scenario_A_body =
     js ''{"response": "{'' @ [0x5C] @ js ''"response'' @ [0x5C] @ js ''":'' @ [0x5C] @
     js ''"Hi there'' @ [0x5C] @ js ''"}"}''\<close>

definition scenario_B_body :: js_string where
  \<open>scenario_B_body =
     js ''{"content": "{'' @ [0x5C] @ js ''"result'' @ [0x5C] @ js ''":{'' @ [0x5C] @
     js ''"summary'' @ [0x5C] @ js ''":'' @ [0x5C] @ js ''"Short summary.'' @ [0x5C] @
     js ''"}}"}''\<close>

text \<open>
  The state after \<open>hi\<close> was typed and submitted, and that state once the user has
  typed \<open>again\<close> while the call is in flight.
\<close>

definition sending :: state where
  "sending = handleSendMessage (js ''m1'') 7 (js ''s1'') (setInputValue (js ''hi'') (initial (js ''u1'')))"

definition sending_typed :: state where
  "sending_typed = setInputValue (js ''again'') sending"

section \<open>String literals\<close>

lemma js_eq_iff: "js a = js b \<longleftrightarrow> a = b"
proof -
  have "inj (\<lambda>c::char. (of_nat (of_char c) :: code_unit))"
  proof (rule injI)
    fix x y :: char
    assume "(of_nat (of_char x) :: code_unit) = of_nat (of_char y)"
    then have "(of_char x :: nat) mod 2 ^ 16 = of_char y mod 2 ^ 16"
      by (simp add: word_of_nat_eq_iff take_bit_eq_mod)
    moreover have "(of_char c :: nat) < 2 ^ 16" for c :: char
      by (rule less_trans [OF nat_of_char_less_256]) simp
    ultimately have "(of_char x :: nat) = of_char y"
      by simp
    then show "x = y" by simp
  qed
  then show ?thesis
    unfolding js_def by simp
qed

lemma js_Nil_iff: "js a = [] \<longleftrightarrow> a = []"
  by (simp add: js_def)

lemma trim_Nil_iff: "trim s = [] \<longleftrightarrow> (\<forall>c\<in>set s. is_space c)"
proof -
  have "(\<forall>c\<in>set (dropWhile is_space s). is_space c) \<longleftrightarrow> dropWhile is_space s = []"
  proof
    assume all: "\<forall>c\<in>set (dropWhile is_space s). is_space c"
    show "dropWhile is_space s = []"
    proof (rule ccontr)
      assume ne: "dropWhile is_space s \<noteq> []"
      then have "\<not> is_space (hd (dropWhile is_space s))" by (rule hd_dropWhile)
      moreover from ne have "hd (dropWhile is_space s) \<in> set (dropWhile is_space s)" by simp
      ultimately show False using all by blast
    qed
  qed (simp del: dropWhile_eq_Nil_conv)
  then show ?thesis
    by (simp add: trim_def)
qed

lemma trim_Nil: "trim [] = []"
  by (simp add: trim_def)

lemma trim_hi: "trim (js ''hi'') = js ''hi''"
  by (simp add: trim_def js_def is_space_def)

section \<open>The normalizer\<close>

lemma get_spec_field: "v \<noteq> JNull \<Longrightarrow> get v k = Inr (spec_field v k)"
  by (cases v) simp_all

lemma get_opt_spec_field: "get_opt (spec_field v k1) k2 = Inr (spec_nested v k1 k2)"
  by (cases "spec_field v k1"; simp) (cases "the (spec_field v k1)"; simp)

lemma default_texts:
  "js ''I received your message.'' \<noteq> []" "js ''Summary not available.'' \<noteq> []"
  "js ''I received your message.'' \<noteq> js ''Summary not available.''"
  by (simp_all add: js_eq_iff) (simp_all add: js_def)

lemma agent_ids_differ: "AGENT_IDS summarization \<noteq> AGENT_IDS conversation"
  by (simp add: js_eq_iff)

lemma or_else_default:
  "or_else a (or_else b (Inr d)) = Inr (spec_first_usable [a, b] d)"
  by (cases a; cases b) simp_all

lemma try_block_parsed:
  assumes "rawContent h data = Inr raw" "JSON_parse h raw = Some parsed" "parsed \<noteq> JNull"
  shows "try_block h agentId data = Inr (spec_reply agentId parsed)"
  using assms
  by (simp add: try_block_def spec_reply_def get_spec_field get_opt_spec_field or_else_default
        del: spec_nested.simps spec_first_usable.simps)

lemma spec_first_usable_truthy:
  "truthy d \<Longrightarrow> truthy (spec_first_usable xs d)"
  by (induction xs d rule: spec_first_usable.induct) simp_all

lemma catch_block_not_null:
  "data \<noteq> JNull \<Longrightarrow> catch_block data = Inr (spec_first_usable [spec_field data (js ''response''), spec_field data (js ''message'')] (JString (js ''I received your message.'')))"
  by (simp add: catch_block_def get_spec_field or_else_default del: spec_first_usable.simps)

lemma spec_reply_truthy: "truthy (spec_reply agentId parsed)"
  unfolding spec_reply_def
  by (simp add: spec_first_usable_truthy default_texts del: spec_first_usable.simps)

lemma try_block_cases:
  assumes "try_block h agentId data = Inr v"
  obtains raw parsed where "rawContent h data = Inr raw" "JSON_parse h raw = Some parsed"
    "parsed \<noteq> JNull" "v = spec_reply agentId parsed"
proof -
  from assms obtain raw where raw: "rawContent h data = Inr raw"
    by (cases "rawContent h data") (simp_all add: try_block_def)
  with assms obtain parsed where parsed: "JSON_parse h raw = Some parsed"
    by (cases "JSON_parse h raw") (simp_all add: try_block_def)
  have "parsed \<noteq> JNull"
  proof
    assume "parsed = JNull"
    with assms raw parsed show False by (simp add: try_block_def split: if_splits)
  qed
  with raw parsed assms that show thesis
    by (simp add: try_block_parsed)
qed

lemma normalize_total:
  assumes "data \<noteq> JNull"
  shows "\<exists>v. normalize h agentId data = Inr v \<and> truthy v"
proof (cases "try_block h agentId data")
  case (Inl e)
  with assms show ?thesis
    by (simp add: normalize_def catch_block_not_null spec_first_usable_truthy default_texts
          del: spec_first_usable.simps)
next
  case (Inr v)
  then have "truthy v"
    by (elim try_block_cases) (simp add: spec_reply_truthy)
  with Inr show ?thesis
    by (simp add: normalize_def)
qed

lemma normalize_parsed:
  assumes "rawContent h data = Inr raw" "JSON_parse h raw = Some parsed" "parsed \<noteq> JNull"
  shows "normalize h agentId data = Inr (spec_reply agentId parsed)"
  using assms by (simp add: normalize_def try_block_parsed)

lemma normalize_unparsed:
  assumes "rawContent h data = Inr raw" "JSON_parse h raw = None"
  shows "normalize h agentId data = catch_block data"
  using assms by (simp add: normalize_def try_block_def)

lemma rawContent_Inr_not_null: "rawContent h data = Inr raw \<Longrightarrow> data \<noteq> JNull"
  by (auto simp: rawContent_def)

lemma scenario_A_reply:
  "callAgentAPI ecma (AGENT_IDS conversation) (Response 200 scenario_A_body) =
     Inr (JString (js ''Hi there''))"
  by code_simp

lemma scenario_B_reply:
  "callAgentAPI ecma (AGENT_IDS summarization) (Response 200 scenario_B_body) =
     Inr (JString (js ''Short summary.''))"
  by code_simp

text \<open>
  C2, as the code has it. For the conversational agent and the body
  \<^verbatim>\<open>{"response": "not json"}\<close> the content does not parse, and the reply is the
  top-level \<^verbatim>\<open>response\<close> itself, \<^verbatim>\<open>not json\<close>.
\<close>

theorem unparsable_response_is_shown_as_is:
  \<open>JSON_parse ecma (JString (js ''not json'')) = None \<and>
   callAgentAPI ecma (AGENT_IDS conversation) (Response 200 (js ''{"response": "not json"}'')) =
     Inr (JString (js ''not json''))\<close>
  by code_simp

text \<open>C2 as stated fails: the reply is not the default placeholder.\<close>

theorem unparsable_response_is_not_the_placeholder:
  \<open>callAgentAPI ecma (AGENT_IDS conversation) (Response 200 (js ''{"response": "not json"}'')) \<noteq>
     Inr (JString (js ''I received your message.''))\<close>
  by code_simp

text \<open>
  C3, as the code has it. For an agent other than the conversational one: when the
  content does not parse and the body has no usable \<^verbatim>\<open>response\<close> or \<^verbatim>\<open>message\<close>,
  the reply is \<^verbatim>\<open>I received your message.\<close>; when the content parses and has no
  usable summary, it is \<^verbatim>\<open>Summary not available.\<close>; the two replies differ.
\<close>

theorem summarization_fallback_defaults:
  assumes "agentId \<noteq> AGENT_IDS conversation"
    and "rawContent h d1 = Inr r1" and "JSON_parse h r1 = None"
    and "\<not> usable (spec_field d1 (js ''response''))" and "\<not> usable (spec_field d1 (js ''message''))"
    and "rawContent h d2 = Inr r2" and "JSON_parse h r2 = Some parsed" and "parsed \<noteq> JNull"
    and "\<not> usable (spec_nested parsed (js ''result'') (js ''summary''))"
    and "\<not> usable (spec_field parsed (js ''summary''))"
  shows "normalize h agentId d1 = Inr (JString (js ''I received your message.'')) \<and>
         normalize h agentId d2 = Inr (JString (js ''Summary not available.'')) \<and>
         normalize h agentId d1 \<noteq> normalize h agentId d2"
proof -
  have first_none: "spec_first_usable [a, b] d = d" if "\<not> usable a" "\<not> usable b" for a b d
    using that by (cases a; cases b) simp_all
  from assms(2) have "d1 \<noteq> JNull" by (rule rawContent_Inr_not_null)
  with assms(2-5) have 1: "normalize h agentId d1 = Inr (JString (js ''I received your message.''))"
    by (simp add: normalize_unparsed catch_block_not_null first_none del: spec_first_usable.simps)
  from assms(1,7-10) have 2: "normalize h agentId d2 = Inr (JString (js ''Summary not available.''))"
    by (simp add: normalize_parsed [OF assms(6)] spec_reply_def first_none
          del: spec_first_usable.simps spec_nested.simps)
  from 1 2 show ?thesis by (simp add: default_texts)
qed

theorem summarization_fallback_defaults_witness:
  \<open>AGENT_IDS summarization \<noteq> AGENT_IDS conversation \<and>
   rawContent ecma (JObject [(js ''content'', JString (js ''not json''))]) = Inr (JString (js ''not json'')) \<and>
   JSON_parse ecma (JString (js ''not json'')) = None \<and>
   \<not> usable (spec_field (JObject [(js ''content'', JString (js ''not json''))]) (js ''response'')) \<and>
   \<not> usable (spec_field (JObject [(js ''content'', JString (js ''not json''))]) (js ''message'')) \<and>
   rawContent ecma (JObject [(js ''content'', JString (js ''{}''))]) = Inr (JString (js ''{}'')) \<and>
   JSON_parse ecma (JString (js ''{}'')) = Some (JObject []) \<and>
   JObject [] \<noteq> JNull \<and>
   \<not> usable (spec_nested (JObject []) (js ''result'') (js ''summary'')) \<and>
   \<not> usable (spec_field (JObject []) (js ''summary'')) \<and>
   normalize ecma (AGENT_IDS summarization) (JObject [(js ''content'', JString (js ''not json''))]) =
     Inr (JString (js ''I received your message.'')) \<and>
   normalize ecma (AGENT_IDS summarization) (JObject [(js ''content'', JString (js ''{}''))]) =
     Inr (JString (js ''Summary not available.'')) \<and>
   normalize ecma (AGENT_IDS summarization) (JObject [(js ''content'', JString (js ''not json''))]) \<noteq>
   normalize ecma (AGENT_IDS summarization) (JObject [(js ''content'', JString (js ''{}''))])\<close>
proof -
  have h1: "AGENT_IDS summarization \<noteq> AGENT_IDS conversation" by (rule agent_ids_differ)
  have h2: "rawContent ecma (JObject [(js ''content'', JString (js ''not json''))]) = Inr (JString (js ''not json''))"
    by code_simp
  have h3: "JSON_parse ecma (JString (js ''not json'')) = None" by code_simp
  have h4: "\<not> usable (spec_field (JObject [(js ''content'', JString (js ''not json''))]) (js ''response''))"
    by code_simp
  have h5: "\<not> usable (spec_field (JObject [(js ''content'', JString (js ''not json''))]) (js ''message''))"
    by code_simp
  have h6: \<open>rawContent ecma (JObject [(js ''content'', JString (js ''{}''))]) = Inr (JString (js ''{}''))\<close>
    by code_simp
  have h7: \<open>JSON_parse ecma (JString (js ''{}'')) = Some (JObject [])\<close> by code_simp
  have h8: "JObject [] \<noteq> JNull" by simp
  have h9: "\<not> usable (spec_nested (JObject []) (js ''result'') (js ''summary''))" by simp
  have h10: "\<not> usable (spec_field (JObject []) (js ''summary''))" by simp
  note summarization_fallback_defaults [OF h1 h2 h3 h4 h5 h6 h7 h8 h9 h10]
  with h1 h2 h3 h4 h5 h6 h7 h8 h9 h10 show ?thesis by blast
qed

text \<open>
  C3 as stated fails: for the summarization agent the bodies \<^verbatim>\<open>{"content": "not json"}\<close>
  and \<^verbatim>\<open>{"content": "{}"}\<close> get two different default strings.
\<close>

theorem summarization_defaults_differ_at_bodies:
  \<open>callAgentAPI ecma (AGENT_IDS summarization) (Response 200 (js ''{"content": "not json"}'')) =
     Inr (JString (js ''I received your message.'')) \<and>
   callAgentAPI ecma (AGENT_IDS summarization) (Response 200 (js ''{"content": "{}"}'')) =
     Inr (JString (js ''Summary not available.'')) \<and>
   callAgentAPI ecma (AGENT_IDS summarization) (Response 200 (js ''{"content": "not json"}'')) \<noteq>
   callAgentAPI ecma (AGENT_IDS summarization) (Response 200 (js ''{"content": "{}"}''))\<close>
  by code_simp

text \<open>
  C4, as the code has it. When the content parses to a value other than \<^verbatim>\<open>null\<close>,
  the reply is the first usable field in the agent's order, else the agent's default
  (\<open>spec_reply\<close>); scenario A yields \<^verbatim>\<open>Hi there\<close> and scenario B
  \<^verbatim>\<open>Short summary.\<close>.
\<close>

theorem parsed_content_field_order:
  "(rawContent h data = Inr raw \<and> JSON_parse h raw = Some parsed \<and> parsed \<noteq> JNull \<longrightarrow>
      normalize h agentId data = Inr (spec_reply agentId parsed)) \<and>
   callAgentAPI ecma (AGENT_IDS conversation) (Response 200 scenario_A_body) =
     Inr (JString (js ''Hi there'')) \<and>
   callAgentAPI ecma (AGENT_IDS summarization) (Response 200 scenario_B_body) =
     Inr (JString (js ''Short summary.''))"
  using scenario_A_reply scenario_B_reply by (simp add: normalize_parsed)

theorem parsed_content_field_order_witness:
  \<open>rawContent ecma (JObject [(js ''response'', JString (js ''{"response":"Hi there"}''))]) =
     Inr (JString (js ''{"response":"Hi there"}'')) \<and>
   JSON_parse ecma (JString (js ''{"response":"Hi there"}'')) =
     Some (JObject [(js ''response'', JString (js ''Hi there''))]) \<and>
   JObject [(js ''response'', JString (js ''Hi there''))] \<noteq> JNull \<and>
   normalize ecma (AGENT_IDS conversation)
     (JObject [(js ''response'', JString (js ''{"response":"Hi there"}''))]) =
     Inr (JString (js ''Hi there''))\<close>
proof -
  have h1: \<open>rawContent ecma (JObject [(js ''response'', JString (js ''{"response":"Hi there"}''))]) =
     Inr (JString (js ''{"response":"Hi there"}''))\<close>
    by code_simp
  have h2: \<open>JSON_parse ecma (JString (js ''{"response":"Hi there"}'')) =
     Some (JObject [(js ''response'', JString (js ''Hi there''))])\<close>
    by code_simp
  have h3: "JObject [(js ''response'', JString (js ''Hi there''))] \<noteq> JNull" by simp
  have v: "spec_reply (AGENT_IDS conversation) (JObject [(js ''response'', JString (js ''Hi there''))]) =
     JString (js ''Hi there'')"
    by code_simp
  from parsed_content_field_order
    [of ecma "JObject [(js ''response'', JString (js ''{\"response\":\"Hi there\"}''))]"
        "JString (js ''{\"response\":\"Hi there\"}'')"
        "JObject [(js ''response'', JString (js ''Hi there''))]" "AGENT_IDS conversation"]
    h1 h2 h3 v
  show ?thesis by simp
qed

text \<open>
  C4 as stated fails: the content \<^verbatim>\<open>null\<close> parses as JSON, the field order would
  give the default, and the reply to \<^verbatim>\<open>{"response": "null"}\<close> is the string
  \<^verbatim>\<open>null\<close>.
\<close>

theorem null_content_skips_field_order:
  \<open>JSON_parse ecma (JString (js ''null'')) = Some JNull \<and>
   spec_reply (AGENT_IDS conversation) JNull = JString (js ''I received your message.'') \<and>
   callAgentAPI ecma (AGENT_IDS conversation) (Response 200 (js ''{"response": "null"}'')) =
     Inr (JString (js ''null''))\<close>
  by code_simp

text \<open>
  C6, as the code has it. For every decoded body other than \<^verbatim>\<open>null\<close>, whatever the
  host's JSON functions return, the normalizer does not throw and returns a truthy
  value, never the empty string.
\<close>

theorem normalize_total_on_non_null:
  assumes "data \<noteq> JNull"
  shows "\<exists>v. normalize h agentId data = Inr v \<and> truthy v \<and> v \<noteq> JString []"
proof -
  from assms obtain v where "normalize h agentId data = Inr v" "truthy v"
    using normalize_total by blast
  moreover from \<open>truthy v\<close> have "v \<noteq> JString []" by auto
  ultimately show ?thesis by blast
qed

theorem normalize_total_on_non_null_witness:
  "JObject [] \<noteq> JNull \<and>
   (\<exists>v. normalize ecma (AGENT_IDS conversation) (JObject []) = Inr v \<and> truthy v \<and> v \<noteq> JString [])"
proof -
  have h: "JObject [] \<noteq> JNull" by simp
  from h normalize_total_on_non_null [OF h, of ecma "AGENT_IDS conversation"] show ?thesis
    by blast
qed

text \<open>
  C6 as stated fails: for the body \<^verbatim>\<open>null\<close> the normalizer throws, and for the body
  \<^verbatim>\<open>{"message": true}\<close> it returns the boolean, not a string.
\<close>

theorem null_body_throws:
  \<open>JSON_parse ecma (JString (js ''null'')) = Some JNull \<and>
   normalize ecma (AGENT_IDS conversation) JNull = Inl TypeError \<and>
   callAgentAPI ecma (AGENT_IDS conversation) (Response 200 (js ''null'')) = Inl TypeError \<and>
   callAgentAPI ecma (AGENT_IDS conversation) (Response 200 (js ''{"message": true}'')) =
     Inr (JBool True)\<close>
  by code_simp

section \<open>The operations of the session controller\<close>

lemma resume_messages:
  "i < length (inflight s) \<Longrightarrow>
   messages (resume h i outcome rid now s) =
     messages s @ [settled_message (callAgentAPI h (agent_id (inflight s ! i)) outcome) rid now]"
  by (simp add: resume_def Let_def)

lemma resume_isTyping:
  "i < length (inflight s) \<Longrightarrow> \<not> isTyping (resume h i outcome rid now s)"
  by (simp add: resume_def Let_def)

lemma callAgentAPI_transport_failure:
  "outcome = Rejected \<or> (\<exists>status body. outcome = Response status body \<and> \<not> response_ok status) \<Longrightarrow>
   \<exists>e. callAgentAPI h agentId outcome = Inl e"
  by (auto simp: callAgentAPI_def)

lemma handleSendMessage_blank:
  "trim (inputValue s) = [] \<Longrightarrow> handleSendMessage rid now sid s = s"
  by (simp add: handleSendMessage_def)

lemma sending_fields:
  "messages sending =
     [\<lparr>msg_id = js ''m1'', content = JString (js ''hi''), sender = user, timestamp = 7, error = None\<rparr>]"
  "inputValue sending = []"
  "isTyping sending"
  "inflight sending =
     [\<lparr>user_id = generateRandomUserId (js ''u1''), agent_id = AGENT_IDS conversation,
       session_id = AGENT_IDS conversation @ js ''-'' @ js ''s1'', message = js ''hi''\<rparr>]"
  by (simp_all add: sending_def handleSendMessage_def setInputValue_def initial_def trim_hi js_Nil_iff Let_def)

lemma handleSendMessage_sent:
  assumes "trim (inputValue s) \<noteq> []"
  shows "isTyping (handleSendMessage rid now sid s)"
    and "inputValue (handleSendMessage rid now sid s) = []"
    and "length (messages (handleSendMessage rid now sid s)) = length (messages s) + 1"
    and "length (inflight (handleSendMessage rid now sid s)) = length (inflight s) + 1"
  using assms by (simp_all add: handleSendMessage_def Let_def)

lemma handleClearChat_inflight: "inflight (handleClearChat s) = inflight s"
  by (simp add: handleClearChat_def)

lemma handleClearChat_messages: "messages (handleClearChat s) = []"
  by (simp add: handleClearChat_def)

text \<open>
  C8. Clear chat, in any state, yields the empty thread and \<open>isTyping = False\<close>.
\<close>

theorem clear_chat_resets:
  "messages (handleClearChat s) = [] \<and> isTyping (handleClearChat s) = False"
  by (simp add: handleClearChat_def)

text \<open>
  C7. When the input is empty or holds whitespace only, that is when it is empty
  once trimmed, a submission changes nothing: the whole state, with its messages, its
  busy flag and its calls in flight, is as before.
\<close>

theorem blank_submission_is_noop:
  "((\<forall>c\<in>set (inputValue s). is_space c) \<longrightarrow> handleSendMessage rid now sid s = s) \<and>
   (trim (inputValue s) = [] \<longrightarrow> handleSendMessage rid now sid s = s)"
  by (simp add: handleSendMessage_blank trim_Nil_iff)

theorem blank_submission_is_noop_witness:
  "inputValue (setInputValue (js ''  '') (initial (js ''u1''))) = [0x20, 0x20] \<and>
   is_space 0x20 \<and>
   trim (inputValue (setInputValue (js ''  '') (initial (js ''u1'')))) = [] \<and>
   handleSendMessage (js ''m1'') 7 (js ''s1'') (setInputValue (js ''  '') (initial (js ''u1''))) =
     setInputValue (js ''  '') (initial (js ''u1''))"
proof -
  have input: "inputValue (setInputValue (js ''  '') (initial (js ''u1''))) = [0x20, 0x20]"
    by (simp add: setInputValue_def initial_def js_def)
  have space: "is_space 0x20"
    by (simp add: is_space_def)
  from input space
  have spaces: "\<forall>c\<in>set (inputValue (setInputValue (js ''  '') (initial (js ''u1'')))). is_space c"
    by simp
  then have blank: "trim (inputValue (setInputValue (js ''  '') (initial (js ''u1'')))) = []"
    by (simp only: trim_Nil_iff)
  from input space spaces blank
    blank_submission_is_noop [of "setInputValue (js ''  '') (initial (js ''u1''))" "js ''m1''" 7 "js ''s1''"]
  show ?thesis by blast
qed

text \<open>
  C10. When the input is not empty once trimmed, the user's message holds the input
  as typed and the request carries the input as typed: the trimmed text is used for
  the test only.
\<close>

theorem submission_keeps_untrimmed_input:
  assumes "trim (inputValue s) \<noteq> []"
  shows "messages (handleSendMessage rid now sid s) =
           messages s @ [\<lparr>msg_id = rid, content = JString (inputValue s), sender = user,
                          timestamp = now, error = None\<rparr>] \<and>
         (\<exists>r. inflight (handleSendMessage rid now sid s) = inflight s @ [r] \<and>
              message r = inputValue s)"
  using assms by (simp add: handleSendMessage_def Let_def)

theorem submission_keeps_untrimmed_input_witness:
  "trim (js '' hi '') \<noteq> [] \<and> trim (js '' hi '') \<noteq> js '' hi '' \<and>
   messages (handleSendMessage (js ''m1'') 7 (js ''s1'') (setInputValue (js '' hi '') (initial (js ''u1'')))) =
     [\<lparr>msg_id = js ''m1'', content = JString (js '' hi ''), sender = user,
       timestamp = 7, error = None\<rparr>] \<and>
   (\<exists>r. inflight (handleSendMessage (js ''m1'') 7 (js ''s1'') (setInputValue (js '' hi '') (initial (js ''u1'')))) = [r] \<and>
        message r = js '' hi '')"
proof -
  have t: "trim (js '' hi '') = js ''hi''"
    by (simp add: trim_def js_def is_space_def)
  have nonblank: "trim (inputValue (setInputValue (js '' hi '') (initial (js ''u1'')))) \<noteq> []"
    by (simp add: setInputValue_def initial_def t) (simp add: js_def)
  have "trim (js '' hi '') \<noteq> []" "trim (js '' hi '') \<noteq> js '' hi ''"
    by (simp_all add: t js_eq_iff) (simp add: js_def)
  with submission_keeps_untrimmed_input [OF nonblank, of "js ''m1''" 7 "js ''s1''"]
  show ?thesis by (simp add: setInputValue_def initial_def)
qed

text \<open>
  C5. When the transport call fails (\<^verbatim>\<open>fetch\<close> rejects, or the status is not in
  200..299), the call's continuation appends one message of the agent with
  \<open>error = Some True\<close> and the fixed text after the messages there were, and
  \<open>isTyping\<close> is false.
\<close>

theorem transport_failure_appends_error_message:
  assumes "i < length (inflight s)"
    and "outcome = Rejected \<or> (\<exists>status body. outcome = Response status body \<and> \<not> response_ok status)"
  shows "messages (resume h i outcome rid now s) =
           messages s @
             [\<lparr>msg_id = rid,
               content = JString (js ''Sorry, I encountered an error while processing your request. Please try again.''),
               sender = agent, timestamp = now, error = Some True\<rparr>] \<and>
         \<not> isTyping (resume h i outcome rid now s)"
proof -
  from assms(2) obtain e where "callAgentAPI h (agent_id (inflight s ! i)) outcome = Inl e"
    using callAgentAPI_transport_failure by blast
  then show ?thesis
    using assms(1) by (simp add: resume_messages resume_isTyping settled_message_def)
qed

theorem transport_failure_appends_error_message_witness:
  "0 < length (inflight sending) \<and>
   (Response 500 (js ''oops'') = Rejected \<or>
    (\<exists>status body. Response 500 (js ''oops'') = Response status body \<and> \<not> response_ok status)) \<and>
   messages (resume ecma 0 (Response 500 (js ''oops'')) (js ''m2'') 9 sending) =
     [\<lparr>msg_id = js ''m1'', content = JString (js ''hi''), sender = user, timestamp = 7, error = None\<rparr>,
      \<lparr>msg_id = js ''m2'',
       content = JString (js ''Sorry, I encountered an error while processing your request. Please try again.''),
       sender = agent, timestamp = 9, error = Some True\<rparr>] \<and>
   \<not> isTyping (resume ecma 0 (Response 500 (js ''oops'')) (js ''m2'') 9 sending)"
proof -
  have h1: "0 < length (inflight sending)"
    by (simp add: sending_fields)
  have h2: "Response 500 (js ''oops'') = Rejected \<or>
    (\<exists>status body. Response 500 (js ''oops'') = Response status body \<and> \<not> response_ok status)"
    by (simp add: response_ok_def)
  from transport_failure_appends_error_message [OF h1 h2, of ecma "js ''m2''" 9] h1 h2
  show ?thesis
    by (simp add: sending_fields)
qed

text \<open>
  C9. Clear chat leaves the calls in flight as they are, and a call in flight still
  appends its message when it settles, the reply or the error message: to the empty
  thread right after the clear, and to the messages of whatever state holds the call
  then.
\<close>

theorem clear_chat_does_not_cancel:
  assumes "i < length (inflight s)"
  shows "inflight (handleClearChat s) = inflight s \<and>
         messages (resume h i outcome rid now (handleClearChat s)) =
           [settled_message (callAgentAPI h (agent_id (inflight s ! i)) outcome) rid now] \<and>
         (\<forall>s'. inflight s' = inflight s \<longrightarrow>
            messages (resume h i outcome rid now s') =
              messages s' @ [settled_message (callAgentAPI h (agent_id (inflight s ! i)) outcome) rid now])"
  using assms
  by (simp add: resume_messages handleClearChat_inflight handleClearChat_messages)

theorem clear_chat_does_not_cancel_witness:
  "0 < length (inflight sending) \<and>
   inflight (handleClearChat sending) = inflight sending \<and>
   messages (resume ecma 0 (Response 200 scenario_A_body) (js ''m2'') 9 (handleClearChat sending)) =
     [\<lparr>msg_id = js ''m2'', content = JString (js ''Hi there''), sender = agent,
       timestamp = 9, error = None\<rparr>] \<and>
   messages (resume ecma 0 Rejected (js ''m2'') 9 (handleClearChat sending)) =
     [\<lparr>msg_id = js ''m2'',
       content = JString (js ''Sorry, I encountered an error while processing your request. Please try again.''),
       sender = agent, timestamp = 9, error = Some True\<rparr>]"
proof -
  have h: "0 < length (inflight sending)"
    by (simp add: sending_fields)
  have r: "callAgentAPI ecma (agent_id (inflight sending ! 0)) Rejected = Inl NetworkError"
    by (simp add: callAgentAPI_def)
  from clear_chat_does_not_cancel [OF h, of ecma "Response 200 scenario_A_body" "js ''m2''" 9]
       clear_chat_does_not_cancel [OF h, of ecma Rejected "js ''m2''" 9]
       h r scenario_A_reply
  show ?thesis
    by (simp add: sending_fields settled_message_def)
qed

text \<open>
  C1, as the code has it. \<open>handleSendMessage\<close> does not read \<open>isTyping\<close>. While a
  call is in flight a submission is a no-op when the input is empty once trimmed; it
  is so right after a submission, which clears the input, so a second submission
  issued back-to-back changes nothing. With an input that is not empty once trimmed
  a submission appends a message and sends a request, whatever \<open>isTyping\<close> is.
\<close>

theorem busy_submission_noop_when_input_blank:
  "(isTyping s \<and> trim (inputValue s) = [] \<longrightarrow>
      length (messages (handleSendMessage rid' now' sid' s)) = length (messages s) \<and>
      inflight (handleSendMessage rid' now' sid' s) = inflight s) \<and>
   (trim (inputValue s) \<noteq> [] \<longrightarrow>
      length (messages (handleSendMessage rid now sid s)) = length (messages s) + 1 \<and>
      length (inflight (handleSendMessage rid now sid s)) = length (inflight s) + 1 \<and>
      isTyping (handleSendMessage rid now sid s) \<and>
      inputValue (handleSendMessage rid now sid s) = [] \<and>
      handleSendMessage rid' now' sid' (handleSendMessage rid now sid s) =
        handleSendMessage rid now sid s)"
  by (simp add: handleSendMessage_blank handleSendMessage_sent trim_Nil)

theorem busy_submission_noop_when_input_blank_witness:
  "isTyping sending \<and> trim (inputValue sending) = [] \<and>
   length (messages (handleSendMessage (js ''m2'') 8 (js ''s2'') sending)) = length (messages sending) \<and>
   inflight (handleSendMessage (js ''m2'') 8 (js ''s2'') sending) = inflight sending \<and>
   trim (inputValue (setInputValue (js ''hi'') (initial (js ''u1'')))) \<noteq> [] \<and>
   handleSendMessage (js ''m2'') 8 (js ''s2'') sending = sending"
proof -
  have h1: "isTyping sending \<and> trim (inputValue sending) = []"
    by (simp add: sending_fields trim_Nil)
  have h2: "trim (inputValue (setInputValue (js ''hi'') (initial (js ''u1'')))) \<noteq> []"
    by (simp add: setInputValue_def initial_def trim_hi js_Nil_iff)
  from busy_submission_noop_when_input_blank
         [of sending "js ''m2''" 8 "js ''s2''"]
       busy_submission_noop_when_input_blank
         [of "setInputValue (js ''hi'') (initial (js ''u1''))" "js ''m2''" 8 "js ''s2''" "js ''m1''" 7 "js ''s1''"]
       h1 h2
  show ?thesis by (simp add: sending_def)
qed

text \<open>
  C1 as stated fails: with a call in flight and \<open>again\<close> typed in the meantime, a
  submission appends a second message and sends a second request.
\<close>

theorem busy_submission_with_text_goes_out:
  "isTyping sending_typed \<and> length (inflight sending_typed) = 1 \<and>
   length (messages sending_typed) = 1 \<and>
   length (messages (handleSendMessage (js ''m2'') 8 (js ''s2'') sending_typed)) = 2 \<and>
   length (inflight (handleSendMessage (js ''m2'') 8 (js ''s2'') sending_typed)) = 2"
proof -
  have "trim (js ''again'') = js ''again''"
    by (simp add: trim_def js_def is_space_def)
  then show ?thesis
    by (simp add: sending_typed_def setInputValue_def sending_fields handleSendMessage_def
          js_Nil_iff Let_def)
qed

end
